theory Spec2Isabelle
  imports Main
begin

section \<open>Station control firmware: a shallow embedding\<close>

text \<open>
  The repository holds two Arduino sketches for a docking station with a door motor, a
  landing-plate motor and a wireless-power relay:
  \<^item> \<^verbatim>\<open>RosStationCommunication.cpp\<close>, the dual-channel station (a ROS server on port 23
    and a web server on port 80);
  \<^item> \<^verbatim>\<open>Station.cpp\<close>, the single-channel station, whose commands are guarded by two photo
    sensors.
  Every call that acts on the outside world (\<^verbatim>\<open>digitalWrite\<close>, \<^verbatim>\<open>delay\<close>,
  \<^verbatim>\<open>Serial.println\<close>, \<^verbatim>\<open>ros_server.write\<close>, \<^verbatim>\<open>flush\<close>) appends one event to a
  trace, in program order, and \<^verbatim>\<open>digitalWrite\<close> also updates the level of its pin.
  The globals of the dual-channel sketch are fields of the state.
\<close>

subsection \<open>Pins, events and the board\<close>

datatype level = LOW | HIGH

datatype pin_mode = INPUT | OUTPUT

datatype server = Ros | Web

datatype event =
    PinMode int pin_mode
  | DigitalWrite int level
  | Delay nat
  | SerialPrintln string
  | ServerWrite server char
  | ClientFlush server

record board =
  pins :: "int \<Rightarrow> level"
  trace :: "event list"

text \<open>The globals of \<^verbatim>\<open>RosStationCommunication.cpp\<close> (lines 8 and 35).\<close>

record station = board +
  alreadyConnected :: bool
  wirelessPowerState :: int

text \<open>Pin assignments and timing constants; both sketches use the same pin numbers.\<close>

definition DOOR_DIRECTION_PIN :: int where "DOOR_DIRECTION_PIN = 4"
definition DOOR_ENABLE_PIN :: int where "DOOR_ENABLE_PIN = 5"
definition PLATE_DIRECTION_PIN :: int where "PLATE_DIRECTION_PIN = 6"
definition PLATE_ENABLE_PIN :: int where "PLATE_ENABLE_PIN = 7"
definition DOOR_PHOTO_PIN :: int where "DOOR_PHOTO_PIN = 8"
definition PLATE_PHOTO_PIN :: int where "PLATE_PHOTO_PIN = 9"
definition WPT_RELAY_PIN :: int where "WPT_RELAY_PIN = 10"

definition DOOR_TIME :: nat where "DOOR_TIME = 25000"
definition PLATE_TIME :: nat where "PLATE_TIME = 45000"

subsection \<open>The Arduino and PHPoC calls the sketches make\<close>

definition pinMode :: "int \<Rightarrow> pin_mode \<Rightarrow> 'a board_scheme \<Rightarrow> 'a board_scheme" where
  "pinMode pin m s = s\<lparr>trace := trace s @ [PinMode pin m]\<rparr>"

definition digitalWrite :: "int \<Rightarrow> level \<Rightarrow> 'a board_scheme \<Rightarrow> 'a board_scheme" where
  "digitalWrite pin v s = s\<lparr>pins := (pins s)(pin := v), trace := trace s @ [DigitalWrite pin v]\<rparr>"

definition delay :: "nat \<Rightarrow> 'a board_scheme \<Rightarrow> 'a board_scheme" where
  "delay ms s = s\<lparr>trace := trace s @ [Delay ms]\<rparr>"

definition Serial_println :: "string \<Rightarrow> 'a board_scheme \<Rightarrow> 'a board_scheme" where
  "Serial_println line s = s\<lparr>trace := trace s @ [SerialPrintln line]\<rparr>"

definition server_write :: "server \<Rightarrow> char \<Rightarrow> 'a board_scheme \<Rightarrow> 'a board_scheme" where
  "server_write srv c s = s\<lparr>trace := trace s @ [ServerWrite srv c]\<rparr>"

definition client_flush :: "server \<Rightarrow> 'a board_scheme \<Rightarrow> 'a board_scheme" where
  "client_flush srv s = s\<lparr>trace := trace s @ [ClientFlush srv]\<rparr>"

text \<open>
  What a sketch observes of the \<^verbatim>\<open>PhpocClient\<close> that \<^verbatim>\<open>server.available()\<close> hands
  it in one polling iteration: its truth value (\<open>connected\<close>) and the bytes waiting to be
  read (\<open>pending\<close>). \<^verbatim>\<open>available() > 0\<close> is \<open>pending \<noteq> []\<close> and \<^verbatim>\<open>read()\<close> returns the
  first pending byte.
\<close>

record client =
  connected :: bool
  pending :: "char list"

subsection \<open>Actuation primitives (the same text in both sketches)\<close>

definition StopAllMotors :: "'a board_scheme \<Rightarrow> 'a board_scheme" where
  "StopAllMotors s =
     (let s = digitalWrite DOOR_ENABLE_PIN HIGH s;
          s = digitalWrite PLATE_ENABLE_PIN HIGH s
      in s)"

definition CloseDoor :: "'a board_scheme \<Rightarrow> 'a board_scheme" where
  "CloseDoor s =
     (let s = digitalWrite DOOR_DIRECTION_PIN HIGH s;
          s = digitalWrite DOOR_ENABLE_PIN LOW s
      in s)"

definition OpenDoor :: "'a board_scheme \<Rightarrow> 'a board_scheme" where
  "OpenDoor s =
     (let s = digitalWrite DOOR_DIRECTION_PIN LOW s;
          s = digitalWrite DOOR_ENABLE_PIN LOW s
      in s)"

definition RetractPlate :: "'a board_scheme \<Rightarrow> 'a board_scheme" where
  "RetractPlate s =
     (let s = digitalWrite PLATE_DIRECTION_PIN HIGH s;
          s = digitalWrite PLATE_ENABLE_PIN LOW s
      in s)"

definition ExtendPlate :: "'a board_scheme \<Rightarrow> 'a board_scheme" where
  "ExtendPlate s =
     (let s = digitalWrite PLATE_DIRECTION_PIN LOW s;
          s = digitalWrite PLATE_ENABLE_PIN LOW s
      in s)"

subsection \<open>Sequences and relay of the dual-channel sketch\<close>

definition TakeOffSequence :: "'a board_scheme \<Rightarrow> 'a board_scheme" where
  "TakeOffSequence s =
     (let s = OpenDoor s;
          s = delay DOOR_TIME s;
          s = ExtendPlate s;
          s = delay PLATE_TIME s
      in s)"

definition LandingSequence :: "'a board_scheme \<Rightarrow> 'a board_scheme" where
  "LandingSequence s =
     (let s = RetractPlate s;
          s = delay PLATE_TIME s;
          s = CloseDoor s;
          s = delay DOOR_TIME s
      in s)"

definition EnableWirelessPower :: "'a board_scheme \<Rightarrow> 'a board_scheme" where
  "EnableWirelessPower s = digitalWrite WPT_RELAY_PIN HIGH s"

definition DisableWirelessPower :: "'a board_scheme \<Rightarrow> 'a board_scheme" where
  "DisableWirelessPower s = digitalWrite WPT_RELAY_PIN LOW s"

subsection \<open>The dual-channel sketch: \<^verbatim>\<open>RosStationCommunication.cpp\<close>\<close>

text \<open>The switch over a byte read from the ROS client (lines 89 to 138).\<close>

definition switch_ros :: "char \<Rightarrow> station \<Rightarrow> station" where
  "switch_ros command s =
     (if command = CHR ''a'' then
        (let s = Serial_println ''ROS: Extend Plate'' s;
             s = ExtendPlate s;
             s = server_write Ros (CHR ''A'') s
         in s)
      else if command = CHR ''b'' then
        (let s = Serial_println ''ROS: Retract Plate'' s;
             s = RetractPlate s;
             s = server_write Ros (CHR ''B'') s
         in s)
      else if command = CHR ''c'' then
        (let s = Serial_println ''ROS: Open Door'' s;
             s = OpenDoor s;
             s = server_write Ros (CHR ''C'') s
         in s)
      else if command = CHR ''d'' then
        (let s = Serial_println ''ROS: Close Door'' s;
             s = CloseDoor s;
             s = server_write Ros (CHR ''D'') s
         in s)
      else if command = CHR ''e'' then
        (let s = Serial_println ''ROS: Wireless Power On'' s;
             s = s\<lparr>wirelessPowerState := 0\<rparr>;
             s = server_write Ros (CHR ''E'') s
         in s)
      else if command = CHR ''f'' then
        (let s = Serial_println ''ROS: Wireless Power Off'' s;
             s = s\<lparr>wirelessPowerState := 1\<rparr>;
             s = server_write Ros (CHR ''F'') s
         in s)
      else if command = CHR ''z'' then
        (let s = Serial_println ''ROS: Take Off Sequence'' s;
             s = TakeOffSequence s;
             s = server_write Ros (CHR ''Z'') s
         in s)
      else if command = CHR ''x'' then
        (let s = Serial_println ''ROS: Landing Sequence'' s;
             s = LandingSequence s;
             s = server_write Ros (CHR ''X'') s
         in s)
      else if command = CHR ''g'' then
        (let s = Serial_println ''ROS: Stop All'' s;
             s = StopAllMotors s;
             s = server_write Ros (CHR ''G'') s
         in s)
      else Serial_println ''Unknown ROS command'' s)"

text \<open>The switch over a byte read from the web client (lines 144 to 184).\<close>

definition switch_web :: "char \<Rightarrow> station \<Rightarrow> station" where
  "switch_web command s =
     (if command = CHR ''A'' then
        (let s = Serial_println ''Web: Extend Plate'' s; s = ExtendPlate s in s)
      else if command = CHR ''D'' then
        (let s = Serial_println ''Web: Retract Plate'' s; s = RetractPlate s in s)
      else if command = CHR ''B'' then
        (let s = Serial_println ''Web: Open Door'' s; s = OpenDoor s in s)
      else if command = CHR ''E'' then
        (let s = Serial_println ''Web: Close Door'' s; s = CloseDoor s in s)
      else if command = CHR ''C'' then
        (let s = Serial_println ''Web: Wireless Power On'' s;
             s = s\<lparr>wirelessPowerState := 0\<rparr>
         in s)
      else if command = CHR ''F'' then
        (let s = Serial_println ''Web: Wireless Power Off'' s;
             s = s\<lparr>wirelessPowerState := 1\<rparr>
         in s)
      else if command = CHR ''G'' then
        (let s = Serial_println ''Web: Take Off Sequence'' s; s = TakeOffSequence s in s)
      else if command = CHR ''H'' then
        (let s = Serial_println ''Web: Landing Sequence'' s; s = LandingSequence s in s)
      else if command = CHR ''I'' then
        (let s = Serial_println ''Web: Stop All'' s; s = StopAllMotors s in s)
      else Serial_println ''Unknown Web command'' s)"

text \<open>The block run when no client was seen before (lines 78 to 84).\<close>

definition new_connection :: "station \<Rightarrow> station" where
  "new_connection s =
     (if \<not> alreadyConnected s then
        (let s = client_flush Ros s;
             s = client_flush Web s;
             s = Serial_println ''New client connected'' s;
             s = s\<lparr>alreadyConnected := True\<rparr>
         in s)
      else s)"

text \<open>The relay control that ends every iteration (lines 189 to 193).\<close>

definition control_wireless_power :: "station \<Rightarrow> station" where
  "control_wireless_power s =
     (if wirelessPowerState s = 0 then EnableWirelessPower s else DisableWirelessPower s)"

text \<open>
  One call of \<^verbatim>\<open>loop()\<close>, given the two clients that \<^verbatim>\<open>ros_server.available()\<close> and
  \<^verbatim>\<open>web_server.available()\<close> return in this iteration.
\<close>

definition loop_RosStation :: "client \<Rightarrow> client \<Rightarrow> station \<Rightarrow> station" where
  "loop_RosStation ros_client web_client s =
     (let s =
        (if connected ros_client \<or> connected web_client then
           (let s = new_connection s;
                s = (case pending ros_client of
                       [] \<Rightarrow> s
                     | command # _ \<Rightarrow> switch_ros command s);
                s = (case pending web_client of
                       [] \<Rightarrow> s
                     | command # _ \<Rightarrow> switch_web command s)
            in s)
         else s)
      in control_wireless_power s)"

text \<open>Successive calls of \<^verbatim>\<open>loop()\<close>, one per pair of clients, oldest first.\<close>

fun run_RosStation :: "(client \<times> client) list \<Rightarrow> station \<Rightarrow> station" where
  "run_RosStation [] s = s"
| "run_RosStation ((ros_client, web_client) # rest) s =
     run_RosStation rest (loop_RosStation ros_client web_client s)"

text \<open>
  The pin part of \<^verbatim>\<open>setup()\<close> (lines 58 to 68); the serial and network bring-up before it
  writes no pin and no global. \<open>boot_RosStation\<close> is the state \<^verbatim>\<open>loop()\<close> first sees: the
  globals at their initialisers, the board after \<^verbatim>\<open>setup()\<close>.
\<close>

definition setup_RosStation :: "station \<Rightarrow> station" where
  "setup_RosStation s =
     (let s = pinMode PLATE_DIRECTION_PIN OUTPUT s;
          s = pinMode PLATE_ENABLE_PIN OUTPUT s;
          s = pinMode DOOR_DIRECTION_PIN OUTPUT s;
          s = pinMode DOOR_ENABLE_PIN OUTPUT s;
          s = pinMode DOOR_PHOTO_PIN INPUT s;
          s = pinMode PLATE_PHOTO_PIN INPUT s;
          s = pinMode WPT_RELAY_PIN OUTPUT s;
          s = StopAllMotors s;
          s = DisableWirelessPower s
      in s)"

definition all_low :: "int \<Rightarrow> level" where
  "all_low pin = LOW"

definition boot_RosStation :: station where
  "boot_RosStation =
     setup_RosStation
       \<lparr>pins = all_low, trace = [], alreadyConnected = False, wirelessPowerState = 1\<rparr>"

subsection \<open>The single-channel sketch: \<^verbatim>\<open>Station.cpp\<close>\<close>

text \<open>\<^verbatim>\<open>digitalRead\<close> of an input pin, whose level the environment sets.\<close>

definition digitalRead :: "(int \<Rightarrow> level) \<Rightarrow> int \<Rightarrow> level" where
  "digitalRead inputs pin = inputs pin"

text \<open>The switch over the command byte (lines 67 to 149), under the two sensor snapshots.\<close>

definition switch_Station :: "char \<Rightarrow> bool \<Rightarrow> bool \<Rightarrow> 'a board_scheme \<Rightarrow> 'a board_scheme" where
  "switch_Station command isDoorClosed isPlateIn s =
     (if command = CHR ''A'' then
        (let s = Serial_println ''Extend Plate'' s;
             s = (if isDoorClosed then ExtendPlate s else s)
         in s)
      else if command = CHR ''D'' then
        (let s = Serial_println ''Retract Plate'' s; s = RetractPlate s in s)
      else if command = CHR ''B'' then
        (let s = Serial_println ''Open Door'' s; s = OpenDoor s in s)
      else if command = CHR ''E'' then
        (let s = Serial_println ''Close Door'' s;
             s = (if isPlateIn then CloseDoor s else s)
         in s)
      else if command = CHR ''G'' then
        (let s = Serial_println ''Take Off Sequence'' s;
             s = (if isPlateIn then
                    (let s = OpenDoor s;
                         s = (if isDoorClosed then ExtendPlate s else s)
                     in s)
                  else s)
         in s)
      else if command = CHR ''H'' then
        (let s = Serial_println ''Landing Sequence'' s;
             s = RetractPlate s;
             s = (if isPlateIn then
                    (let s = CloseDoor s;
                         s = (if isDoorClosed then StopAllMotors s else s)
                     in s)
                  else s)
         in s)
      else if command = CHR ''I'' then
        (let s = Serial_println ''Stop All'' s; s = StopAllMotors s in s)
      else Serial_println ''Unknown command'' s)"

text \<open>
  One call of \<^verbatim>\<open>loop()\<close>, given the client that \<^verbatim>\<open>server.available()\<close> returns and the
  levels of the input pins in this iteration.
\<close>

definition loop_Station :: "client \<Rightarrow> (int \<Rightarrow> level) \<Rightarrow> 'a board_scheme \<Rightarrow> 'a board_scheme" where
  "loop_Station client inputs s =
     (if connected client then
        (case pending client of
           [] \<Rightarrow> s
         | command # _ \<Rightarrow>
             (let isDoorClosed = (digitalRead inputs DOOR_PHOTO_PIN = LOW);
                  isPlateIn = (digitalRead inputs PLATE_PHOTO_PIN = LOW)
              in switch_Station command isDoorClosed isPlateIn s))
      else s)"

text \<open>
  The pin part of \<^verbatim>\<open>setup()\<close> (lines 38 to 46) and the board \<^verbatim>\<open>loop()\<close> first sees.
\<close>

definition setup_Station :: "board \<Rightarrow> board" where
  "setup_Station s =
     (let s = pinMode PLATE_DIRECTION_PIN OUTPUT s;
          s = pinMode PLATE_ENABLE_PIN OUTPUT s;
          s = pinMode DOOR_DIRECTION_PIN OUTPUT s;
          s = pinMode DOOR_ENABLE_PIN OUTPUT s;
          s = pinMode DOOR_PHOTO_PIN INPUT s;
          s = pinMode PLATE_PHOTO_PIN INPUT s;
          s = StopAllMotors s
      in s)"

definition boot_Station :: board where
  "boot_Station = setup_Station \<lparr>pins = all_low, trace = []\<rparr>"

subsection \<open>Observations on traces\<close>

text \<open>The events a step appends to the trace.\<close>

definition emitted :: "('a board_scheme \<Rightarrow> 'b board_scheme) \<Rightarrow> 'a board_scheme \<Rightarrow> event list" where
  "emitted f s = drop (length (trace s)) (trace (f s))"

fun is_server_write :: "event \<Rightarrow> bool" where
  "is_server_write (ServerWrite srv c) = True"
| "is_server_write e = False"

text \<open>The level that a list of events leaves on a pin, if it writes the pin at all.\<close>

fun last_write :: "int \<Rightarrow> event list \<Rightarrow> level option" where
  "last_write p [] = None"
| "last_write p (e # es) =
     (case last_write p es of
        Some v \<Rightarrow> Some v
      | None \<Rightarrow> (case e of DigitalWrite q v \<Rightarrow> if q = p then Some v else None | _ \<Rightarrow> None))"

text \<open>The time, in milliseconds, that a list of events spends in \<^verbatim>\<open>delay\<close>.\<close>

fun elapsed :: "event list \<Rightarrow> nat" where
  "elapsed [] = 0"
| "elapsed (Delay ms # es) = ms + elapsed es"
| "elapsed (e # es) = elapsed es"

text \<open>The upper-case equivalent of a byte, as C's \<^verbatim>\<open>toupper\<close> gives it for ASCII.\<close>

definition toupper :: "char \<Rightarrow> char" where
  "toupper c =
     (if of_char (CHR ''a'') \<le> (of_char c :: nat) \<and> (of_char c :: nat) \<le> of_char (CHR ''z'')
      then char_of (of_char c - (32::nat)) else c)"

text \<open>The command alphabets, as the specification lists them.\<close>

definition ros_alphabet :: "char list" where "ros_alphabet = ''abcdefzxg''"
definition web_alphabet :: "char list" where "web_alphabet = ''ADBECFGHI''"
definition station_alphabet :: "char list" where "station_alphabet = ''ADBEGHI''"

text \<open>What the sketch does on a first connection, and those events within a trace.\<close>

definition first_connection_events :: "event list" where
  "first_connection_events =
     [ClientFlush Ros, ClientFlush Web, SerialPrintln ''New client connected'']"

definition connection_events :: "event list \<Rightarrow> event list" where
  "connection_events evs = filter (\<lambda>e. e \<in> set first_connection_events) evs"

text \<open>Fixtures for the concrete runs below.\<close>

definition idle_board :: board where
  "idle_board = \<lparr>pins = all_low, trace = []\<rparr>"

definition no_client :: client where
  "no_client = \<lparr>connected = False, pending = []\<rparr>"

definition sending :: "char list \<Rightarrow> client" where
  "sending bytes = \<lparr>connected = True, pending = bytes\<rparr>"

section \<open>Properties\<close>

lemmas pin_defs = DOOR_DIRECTION_PIN_def DOOR_ENABLE_PIN_def PLATE_DIRECTION_PIN_def
  PLATE_ENABLE_PIN_def DOOR_PHOTO_PIN_def PLATE_PHOTO_PIN_def WPT_RELAY_PIN_def
lemmas call_defs = pinMode_def digitalWrite_def delay_def Serial_println_def
  server_write_def client_flush_def
lemmas act_defs = StopAllMotors_def CloseDoor_def OpenDoor_def RetractPlate_def ExtendPlate_def
lemmas seq_defs = TakeOffSequence_def LandingSequence_def DOOR_TIME_def PLATE_TIME_def
lemmas relay_defs = control_wireless_power_def EnableWirelessPower_def DisableWirelessPower_def
lemmas fixture_defs = idle_board_def no_client_def sending_def all_low_def
lemmas boot_defs = boot_RosStation_def setup_RosStation_def boot_Station_def setup_Station_def
lemmas loop_defs = loop_RosStation_def new_connection_def switch_ros_def switch_web_def

lemma toupper_ros: "map toupper ''abcdefzxg'' = ''ABCDEFZXG''"
  by code_simp

subsection \<open>Actuation primitives and sequences\<close>

text \<open>
  C8. Whatever the pins were, \<open>StopAllMotors\<close> leaves both enable pins HIGH and changes
  nothing else: the direction pins, the relay pin and every other pin keep their level,
  and so do the globals (the relay state flag among them). It writes the two enable pins
  and nothing more. The text of the function is the same in both sketches.
\<close>

theorem StopAllMotors_frame:
  "pins (StopAllMotors s) = (pins s)(DOOR_ENABLE_PIN := HIGH, PLATE_ENABLE_PIN := HIGH)
   \<and> pins (StopAllMotors s) DOOR_ENABLE_PIN = HIGH
   \<and> pins (StopAllMotors s) PLATE_ENABLE_PIN = HIGH
   \<and> pins (StopAllMotors s) DOOR_DIRECTION_PIN = pins s DOOR_DIRECTION_PIN
   \<and> pins (StopAllMotors s) PLATE_DIRECTION_PIN = pins s PLATE_DIRECTION_PIN
   \<and> pins (StopAllMotors s) WPT_RELAY_PIN = pins s WPT_RELAY_PIN
   \<and> board.more (StopAllMotors s) = board.more s
   \<and> wirelessPowerState (StopAllMotors st) = wirelessPowerState st
   \<and> trace (StopAllMotors s) =
       trace s @ [DigitalWrite DOOR_ENABLE_PIN HIGH, DigitalWrite PLATE_ENABLE_PIN HIGH]"
  by (simp add: act_defs call_defs pin_defs)

text \<open>
  C5. \<open>TakeOffSequence\<close> appends exactly: the two pin writes of \<open>OpenDoor\<close>, a delay of
  25000 ms (\<open>DOOR_TIME\<close>), the two pin writes of \<open>ExtendPlate\<close>, a delay of 45000 ms
  (\<open>PLATE_TIME\<close>). So the time spent in \<^verbatim>\<open>delay\<close> before the first plate write is
  \<open>DOOR_TIME\<close>, and the sequence writes no other pin.
\<close>

theorem TakeOffSequence_trace:
  "emitted TakeOffSequence s =
       [DigitalWrite DOOR_DIRECTION_PIN LOW, DigitalWrite DOOR_ENABLE_PIN LOW, Delay 25000,
        DigitalWrite PLATE_DIRECTION_PIN LOW, DigitalWrite PLATE_ENABLE_PIN LOW, Delay 45000]
   \<and> emitted OpenDoor s =
       [DigitalWrite DOOR_DIRECTION_PIN LOW, DigitalWrite DOOR_ENABLE_PIN LOW]
   \<and> emitted ExtendPlate s =
       [DigitalWrite PLATE_DIRECTION_PIN LOW, DigitalWrite PLATE_ENABLE_PIN LOW]
   \<and> trace (TakeOffSequence s) =
       trace (OpenDoor s) @ [Delay 25000] @ emitted ExtendPlate s @ [Delay 45000]
   \<and> elapsed (takeWhile (\<lambda>e. e \<noteq> DigitalWrite PLATE_DIRECTION_PIN LOW)
                (emitted TakeOffSequence s)) = DOOR_TIME
   \<and> DOOR_TIME = 25000 \<and> PLATE_TIME = 45000"
  by (simp add: seq_defs act_defs call_defs pin_defs emitted_def)

text \<open>
  C6. \<open>LandingSequence\<close> appends exactly: the two pin writes of \<open>RetractPlate\<close>, a delay
  of 45000 ms (\<open>PLATE_TIME\<close>), the two pin writes of \<open>CloseDoor\<close>, a delay of 25000 ms
  (\<open>DOOR_TIME\<close>). So the time spent in \<^verbatim>\<open>delay\<close> before the first door write is
  \<open>PLATE_TIME\<close>, the whole sequence waits 45000 ms and then 25000 ms, and it writes no
  other pin.
\<close>

theorem LandingSequence_trace:
  "emitted LandingSequence s =
       [DigitalWrite PLATE_DIRECTION_PIN HIGH, DigitalWrite PLATE_ENABLE_PIN LOW, Delay 45000,
        DigitalWrite DOOR_DIRECTION_PIN HIGH, DigitalWrite DOOR_ENABLE_PIN LOW, Delay 25000]
   \<and> emitted RetractPlate s =
       [DigitalWrite PLATE_DIRECTION_PIN HIGH, DigitalWrite PLATE_ENABLE_PIN LOW]
   \<and> emitted CloseDoor s =
       [DigitalWrite DOOR_DIRECTION_PIN HIGH, DigitalWrite DOOR_ENABLE_PIN LOW]
   \<and> trace (LandingSequence s) =
       trace (RetractPlate s) @ [Delay 45000] @ emitted CloseDoor s @ [Delay 25000]
   \<and> elapsed (takeWhile (\<lambda>e. e \<noteq> DigitalWrite DOOR_DIRECTION_PIN HIGH)
                (emitted LandingSequence s)) = PLATE_TIME
   \<and> elapsed (emitted LandingSequence s) = PLATE_TIME + DOOR_TIME
   \<and> DOOR_TIME = 25000 \<and> PLATE_TIME = 45000"
  by (simp add: seq_defs act_defs call_defs pin_defs emitted_def)

subsection \<open>Command dispatch\<close>

text \<open>
  C4. A byte outside the alphabet of its channel (the ROS channel, the web channel, the
  single-channel station) leaves the state as it was but for one line on the serial log:
  no pin is written and no global changes.
\<close>

theorem unknown_command:
  "(c \<notin> set ros_alphabet \<longrightarrow>
      switch_ros c st = st\<lparr>trace := trace st @ [SerialPrintln ''Unknown ROS command'']\<rparr>)
   \<and> (c \<notin> set web_alphabet \<longrightarrow>
      switch_web c st = st\<lparr>trace := trace st @ [SerialPrintln ''Unknown Web command'']\<rparr>)
   \<and> (c \<notin> set station_alphabet \<longrightarrow>
      switch_Station c isDoorClosed isPlateIn s =
        s\<lparr>trace := trace s @ [SerialPrintln ''Unknown command'']\<rparr>)"
  by (simp add: ros_alphabet_def web_alphabet_def station_alphabet_def
      switch_ros_def switch_web_def switch_Station_def Serial_println_def)

theorem unknown_command_witness:
  "CHR ''q'' \<notin> set ros_alphabet \<and> CHR ''q'' \<notin> set web_alphabet
   \<and> CHR ''q'' \<notin> set station_alphabet
   \<and> emitted (switch_ros (CHR ''q'')) boot_RosStation = [SerialPrintln ''Unknown ROS command'']
   \<and> pins (switch_ros (CHR ''q'') boot_RosStation) = pins boot_RosStation
   \<and> wirelessPowerState (switch_ros (CHR ''q'') boot_RosStation) = 1
   \<and> emitted (switch_web (CHR ''q'')) boot_RosStation = [SerialPrintln ''Unknown Web command'']
   \<and> pins (switch_web (CHR ''q'') boot_RosStation) = pins boot_RosStation
   \<and> wirelessPowerState (switch_web (CHR ''q'') boot_RosStation) = 1
   \<and> emitted (switch_Station (CHR ''q'') True True) idle_board = [SerialPrintln ''Unknown command'']
   \<and> pins (switch_Station (CHR ''q'') True True idle_board) = pins idle_board"
proof -
  have out: "CHR ''q'' \<notin> set ros_alphabet" "CHR ''q'' \<notin> set web_alphabet"
    "CHR ''q'' \<notin> set station_alphabet"
    by (simp_all add: ros_alphabet_def web_alphabet_def station_alphabet_def)
  have flag: "wirelessPowerState boot_RosStation = 1"
    by (simp add: boot_RosStation_def setup_RosStation_def act_defs relay_defs call_defs)
  show ?thesis
    using out flag
      unknown_command [of "CHR ''q''" boot_RosStation True True idle_board]
    by (simp add: emitted_def)
qed

text \<open>
  C7. Every byte of the ROS alphabet is answered by exactly one write to the ROS server,
  of the upper-case equivalent of the byte; the web switch writes to no server, whatever
  the byte. So \<open>a\<close> on the ROS channel is \<open>ExtendPlate\<close> and the answer \<open>A\<close>, and \<open>A\<close>
  on the web channel is \<open>ExtendPlate\<close> and no answer.
\<close>

theorem channel_acknowledgement:
  "(c \<in> set ros_alphabet \<longrightarrow>
      filter is_server_write (emitted (switch_ros c) s) = [ServerWrite Ros (toupper c)])
   \<and> filter is_server_write (emitted (switch_web c) s) = []
   \<and> switch_ros (CHR ''a'') s =
       server_write Ros (CHR ''A'') (ExtendPlate (Serial_println ''ROS: Extend Plate'' s))
   \<and> switch_web (CHR ''A'') s = ExtendPlate (Serial_println ''Web: Extend Plate'' s)"
proof (intro conjI impI)
  assume "c \<in> set ros_alphabet"
  then show "filter is_server_write (emitted (switch_ros c) s) = [ServerWrite Ros (toupper c)]"
    using toupper_ros
    by (auto simp add: ros_alphabet_def switch_ros_def seq_defs act_defs call_defs emitted_def)
next
  show "filter is_server_write (emitted (switch_web c) s) = []"
    by (simp add: switch_web_def seq_defs act_defs call_defs emitted_def)
next
  show "switch_ros (CHR ''a'') s =
       server_write Ros (CHR ''A'') (ExtendPlate (Serial_println ''ROS: Extend Plate'' s))"
    by (simp add: switch_ros_def)
next
  show "switch_web (CHR ''A'') s = ExtendPlate (Serial_println ''Web: Extend Plate'' s)"
    by (simp add: switch_web_def)
qed

theorem channel_acknowledgement_witness:
  "CHR ''z'' \<in> set ros_alphabet
   \<and> filter is_server_write (emitted (switch_ros (CHR ''z'')) boot_RosStation)
       = [ServerWrite Ros (CHR ''Z'')]
   \<and> filter is_server_write (emitted (switch_web (CHR ''G'')) boot_RosStation) = []"
proof -
  have mem: "CHR ''z'' \<in> set ros_alphabet"
    by (simp add: ros_alphabet_def)
  have up: "toupper (CHR ''z'') = CHR ''Z''"
    using toupper_ros by simp
  show ?thesis
    using mem up channel_acknowledgement [of "CHR ''z''" boot_RosStation]
      channel_acknowledgement [of "CHR ''G''" boot_RosStation]
    by simp
qed

subsection \<open>The sensor guards of the single-channel station\<close>

text \<open>
  C9. In the single-channel sketch, command \<open>A\<close> with the door photo sensor HIGH (door not
  closed) changes no pin and only logs; with the sensor LOW it runs \<open>ExtendPlate\<close>: the
  plate direction pin goes LOW (extend), the plate enable pin goes LOW, and no other pin
  changes.
\<close>

theorem station_A_guard:
  assumes "connected client" and "pending client = CHR ''A'' # rest"
  shows "(digitalRead inputs DOOR_PHOTO_PIN = HIGH \<longrightarrow>
            pins (loop_Station client inputs s) = pins s
            \<and> trace (loop_Station client inputs s) = trace s @ [SerialPrintln ''Extend Plate''])
       \<and> (digitalRead inputs DOOR_PHOTO_PIN = LOW \<longrightarrow>
            loop_Station client inputs s = ExtendPlate (Serial_println ''Extend Plate'' s)
            \<and> pins (loop_Station client inputs s) =
                (pins s)(PLATE_DIRECTION_PIN := LOW, PLATE_ENABLE_PIN := LOW)
            \<and> trace (loop_Station client inputs s) =
                trace s @ [SerialPrintln ''Extend Plate'',
                           DigitalWrite PLATE_DIRECTION_PIN LOW, DigitalWrite PLATE_ENABLE_PIN LOW])"
  using assms by (simp add: loop_Station_def switch_Station_def act_defs call_defs)

theorem station_A_guard_witness:
  "connected (sending ''A'') \<and> pending (sending ''A'') = CHR ''A'' # []
   \<and> digitalRead (all_low(DOOR_PHOTO_PIN := HIGH)) DOOR_PHOTO_PIN = HIGH
   \<and> pins (loop_Station (sending ''A'') (all_low(DOOR_PHOTO_PIN := HIGH)) boot_Station)
       = pins boot_Station
   \<and> emitted (loop_Station (sending ''A'') (all_low(DOOR_PHOTO_PIN := HIGH))) boot_Station
       = [SerialPrintln ''Extend Plate'']
   \<and> digitalRead all_low DOOR_PHOTO_PIN = LOW
   \<and> pins (loop_Station (sending ''A'') all_low boot_Station) PLATE_DIRECTION_PIN = LOW
   \<and> pins (loop_Station (sending ''A'') all_low boot_Station) PLATE_ENABLE_PIN = LOW
   \<and> pins boot_Station PLATE_ENABLE_PIN = HIGH
   \<and> emitted (loop_Station (sending ''A'') all_low) boot_Station
       = [SerialPrintln ''Extend Plate'',
          DigitalWrite PLATE_DIRECTION_PIN LOW, DigitalWrite PLATE_ENABLE_PIN LOW]"
proof -
  have c: "connected (sending ''A'')" and p: "pending (sending ''A'') = CHR ''A'' # []"
    by (simp_all add: sending_def)
  have hi: "digitalRead (all_low(DOOR_PHOTO_PIN := HIGH)) DOOR_PHOTO_PIN = HIGH"
    and lo: "digitalRead all_low DOOR_PHOTO_PIN = LOW"
    by (simp_all add: digitalRead_def all_low_def)
  have boot: "pins boot_Station PLATE_ENABLE_PIN = HIGH"
    by (simp add: boot_Station_def setup_Station_def act_defs call_defs pin_defs)
  show ?thesis
    using c p hi lo boot
      station_A_guard [OF c p, of "all_low(DOOR_PHOTO_PIN := HIGH)" boot_Station]
      station_A_guard [OF c p, of all_low boot_Station]
    by (simp add: emitted_def pin_defs act_defs call_defs)
qed

text \<open>
  C1, as the code has it. In the single-channel sketch, command \<open>G\<close> logs one line; then,
  if the plate sensor read LOW before the dispatch (\<open>isPlateIn\<close>), it runs \<open>OpenDoor\<close> and
  then, if the door sensor read LOW in that same snapshot (\<open>isDoorClosed\<close>), \<open>ExtendPlate\<close>.
  If the plate sensor read HIGH, no pin is written. The inner guard is the door sensor, not
  the plate sensor.
\<close>

theorem station_G_guards:
  assumes "connected client" and "pending client = CHR ''G'' # rest"
  shows "trace (loop_Station client inputs s) =
           trace s @ [SerialPrintln ''Take Off Sequence''] @
           (if digitalRead inputs PLATE_PHOTO_PIN = LOW then
              [DigitalWrite DOOR_DIRECTION_PIN LOW, DigitalWrite DOOR_ENABLE_PIN LOW] @
              (if digitalRead inputs DOOR_PHOTO_PIN = LOW then
                 [DigitalWrite PLATE_DIRECTION_PIN LOW, DigitalWrite PLATE_ENABLE_PIN LOW]
               else [])
            else [])
       \<and> pins (loop_Station client inputs s) =
           (if digitalRead inputs PLATE_PHOTO_PIN = LOW then
              if digitalRead inputs DOOR_PHOTO_PIN = LOW
              then (pins s)(DOOR_DIRECTION_PIN := LOW, DOOR_ENABLE_PIN := LOW,
                            PLATE_DIRECTION_PIN := LOW, PLATE_ENABLE_PIN := LOW)
              else (pins s)(DOOR_DIRECTION_PIN := LOW, DOOR_ENABLE_PIN := LOW)
            else pins s)"
  using assms by (simp add: loop_Station_def switch_Station_def act_defs call_defs)

theorem station_G_guards_witness:
  "connected (sending ''G'') \<and> pending (sending ''G'') = CHR ''G'' # []
   \<and> digitalRead (all_low(DOOR_PHOTO_PIN := HIGH)) PLATE_PHOTO_PIN = LOW
   \<and> digitalRead (all_low(DOOR_PHOTO_PIN := HIGH)) DOOR_PHOTO_PIN = HIGH
   \<and> trace (loop_Station (sending ''G'') (all_low(DOOR_PHOTO_PIN := HIGH)) idle_board) =
       [SerialPrintln ''Take Off Sequence'',
        DigitalWrite DOOR_DIRECTION_PIN LOW, DigitalWrite DOOR_ENABLE_PIN LOW]
   \<and> trace (loop_Station (sending ''G'') (all_low(PLATE_PHOTO_PIN := HIGH)) idle_board) =
       [SerialPrintln ''Take Off Sequence'']
   \<and> trace (loop_Station (sending ''G'') all_low idle_board) =
       [SerialPrintln ''Take Off Sequence'',
        DigitalWrite DOOR_DIRECTION_PIN LOW, DigitalWrite DOOR_ENABLE_PIN LOW,
        DigitalWrite PLATE_DIRECTION_PIN LOW, DigitalWrite PLATE_ENABLE_PIN LOW]"
proof -
  have c: "connected (sending ''G'')" and p: "pending (sending ''G'') = CHR ''G'' # []"
    by (simp_all add: sending_def)
  show ?thesis
    using c p
      station_G_guards [OF c p, of "all_low(DOOR_PHOTO_PIN := HIGH)" idle_board]
      station_G_guards [OF c p, of "all_low(PLATE_PHOTO_PIN := HIGH)" idle_board]
      station_G_guards [OF c p, of all_low idle_board]
    by (simp add: digitalRead_def pin_defs all_low_def idle_board_def)
qed

text \<open>
  C1 as claimed fails. With the plate sensor LOW and the door sensor HIGH the outer guard
  \<open>isPlateIn\<close> holds, and so would an inner guard on \<open>isPlateIn\<close>; yet the sketch runs
  \<open>OpenDoor\<close> only, and never writes the plate enable pin.
\<close>

theorem station_G_inner_guard_counterexample:
  "digitalRead (all_low(DOOR_PHOTO_PIN := HIGH)) PLATE_PHOTO_PIN = LOW
   \<and> trace (loop_Station (sending ''G'') (all_low(DOOR_PHOTO_PIN := HIGH)) idle_board) =
       [SerialPrintln ''Take Off Sequence'',
        DigitalWrite DOOR_DIRECTION_PIN LOW, DigitalWrite DOOR_ENABLE_PIN LOW]
   \<and> trace (loop_Station (sending ''G'') (all_low(DOOR_PHOTO_PIN := HIGH)) idle_board) \<noteq>
       trace (ExtendPlate (OpenDoor (Serial_println ''Take Off Sequence'' idle_board)))
   \<and> last_write PLATE_ENABLE_PIN
        (emitted (loop_Station (sending ''G'') (all_low(DOOR_PHOTO_PIN := HIGH))) idle_board) = None"
  by (simp add: loop_Station_def switch_Station_def act_defs call_defs digitalRead_def
      pin_defs fixture_defs emitted_def)

subsection \<open>The polling loop of the dual-channel station\<close>

lemma loop_relay:
  "pins (loop_RosStation r w s) WPT_RELAY_PIN =
     (if wirelessPowerState (loop_RosStation r w s) = 0 then HIGH else LOW)"
  by (simp add: loop_RosStation_def relay_defs digitalWrite_def Let_def)

text \<open>
  C3. Every call of \<^verbatim>\<open>loop()\<close> ends with the relay pin HIGH if \<open>wirelessPowerState\<close>
  is 0 at that point and LOW otherwise, from any state and for any clients, with or
  without a command; so the same holds after any non-empty run of iterations.
\<close>

theorem relay_follows_state:
  "pins (loop_RosStation r w s) WPT_RELAY_PIN =
     (if wirelessPowerState (loop_RosStation r w s) = 0 then HIGH else LOW)
   \<and> (envs \<noteq> [] \<longrightarrow>
        pins (run_RosStation envs s) WPT_RELAY_PIN =
          (if wirelessPowerState (run_RosStation envs s) = 0 then HIGH else LOW))"
proof (intro conjI impI)
  show "pins (loop_RosStation r w s) WPT_RELAY_PIN =
     (if wirelessPowerState (loop_RosStation r w s) = 0 then HIGH else LOW)"
    by (rule loop_relay)
next
  assume "envs \<noteq> []"
  then show "pins (run_RosStation envs s) WPT_RELAY_PIN =
          (if wirelessPowerState (run_RosStation envs s) = 0 then HIGH else LOW)"
  proof (induction envs arbitrary: s)
    case Nil
    then show ?case by simp
  next
    case (Cons e rest)
    obtain r' w' where e: "e = (r', w')" by (cases e)
    show ?case
    proof (cases "rest = []")
      case True
      then show ?thesis using e loop_relay [of r' w' s] by simp
    next
      case False
      then show ?thesis using e Cons.IH [of "loop_RosStation r' w' s"] by simp
    qed
  qed
qed

theorem relay_follows_state_witness:
  "[(sending ''e'', no_client), (no_client, no_client)] \<noteq> []
   \<and> wirelessPowerState
        (run_RosStation [(sending ''e'', no_client), (no_client, no_client)] boot_RosStation) = 0
   \<and> pins (run_RosStation [(sending ''e'', no_client), (no_client, no_client)] boot_RosStation)
        WPT_RELAY_PIN = HIGH
   \<and> wirelessPowerState (loop_RosStation no_client no_client boot_RosStation) = 1
   \<and> pins (loop_RosStation no_client no_client boot_RosStation) WPT_RELAY_PIN = LOW"
proof -
  have on: "wirelessPowerState
      (run_RosStation [(sending ''e'', no_client), (no_client, no_client)] boot_RosStation) = 0"
    by (simp add: loop_defs relay_defs boot_defs act_defs call_defs fixture_defs)
  have off: "wirelessPowerState (loop_RosStation no_client no_client boot_RosStation) = 1"
    by (simp add: loop_defs relay_defs boot_defs act_defs call_defs fixture_defs)
  show ?thesis
    using on off
      relay_follows_state [of no_client no_client boot_RosStation
        "[(sending ''e'', no_client), (no_client, no_client)]"]
    by simp
qed

lemma switch_ros_connection:
  "alreadyConnected (switch_ros c s) = alreadyConnected s
   \<and> connection_events (trace (switch_ros c s)) = connection_events (trace s)"
  by (simp add: switch_ros_def seq_defs act_defs call_defs connection_events_def
      first_connection_events_def)

lemma switch_web_connection:
  "alreadyConnected (switch_web c s) = alreadyConnected s
   \<and> connection_events (trace (switch_web c s)) = connection_events (trace s)"
  by (simp add: switch_web_def seq_defs act_defs call_defs connection_events_def
      first_connection_events_def)

lemma control_wireless_power_connection:
  "alreadyConnected (control_wireless_power s) = alreadyConnected s
   \<and> connection_events (trace (control_wireless_power s)) = connection_events (trace s)"
  by (simp add: relay_defs call_defs connection_events_def first_connection_events_def)

lemma new_connection_connection:
  "alreadyConnected (new_connection s)
   \<and> connection_events (trace (new_connection s)) =
       connection_events (trace s) @ (if alreadyConnected s then [] else first_connection_events)"
  by (simp add: new_connection_def call_defs connection_events_def first_connection_events_def)

lemma loop_connection:
  "alreadyConnected (loop_RosStation r w s) = (alreadyConnected s \<or> connected r \<or> connected w)
   \<and> connection_events (trace (loop_RosStation r w s)) =
       connection_events (trace s) @
       (if \<not> alreadyConnected s \<and> (connected r \<or> connected w)
        then first_connection_events else [])"
  using new_connection_connection [of s]
  by (auto simp add: loop_RosStation_def Let_def switch_ros_connection switch_web_connection
      control_wireless_power_connection split: list.splits)

text \<open>
  C2, as the code has it. The sketch has one flag for both channels. An iteration sets it
  when either client is connected, and nothing ever clears it: after any run of iterations
  it is true exactly if it was true before or some iteration of the run saw a client. The
  first-connection actions (flush both clients, log \<open>New client connected\<close>) happen in
  the one iteration that sets the flag, so at most once after boot.
\<close>

theorem alreadyConnected_latches:
  "alreadyConnected (run_RosStation envs s) =
     (alreadyConnected s \<or> list_ex (\<lambda>(r, w). connected r \<or> connected w) envs)
   \<and> connection_events (trace (run_RosStation envs s)) =
       connection_events (trace s) @
       (if \<not> alreadyConnected s \<and> list_ex (\<lambda>(r, w). connected r \<or> connected w) envs
        then first_connection_events else [])"
proof (induction envs arbitrary: s)
  case Nil
  show ?case by simp
next
  case (Cons e rest)
  obtain r w where e: "e = (r, w)" by (cases e)
  show ?case
    using Cons.IH [of "loop_RosStation r w s"] loop_connection [of r w s] e
    by auto
qed

theorem alreadyConnected_latches_witness:
  "alreadyConnected
     (run_RosStation [(no_client, no_client), (no_client, sending []), (no_client, no_client)]
        boot_RosStation)
   \<and> connection_events
        (trace (run_RosStation
           [(no_client, no_client), (no_client, sending []), (no_client, no_client)]
           boot_RosStation)) = first_connection_events
   \<and> \<not> alreadyConnected (run_RosStation [(no_client, no_client)] boot_RosStation)"
proof -
  have boot: "\<not> alreadyConnected boot_RosStation"
    "connection_events (trace boot_RosStation) = []"
    by (simp_all add: boot_defs act_defs relay_defs call_defs connection_events_def
        first_connection_events_def)
  show ?thesis
    using boot
      alreadyConnected_latches
        [of "[(no_client, no_client), (no_client, sending []), (no_client, no_client)]"
          boot_RosStation]
      alreadyConnected_latches [of "[(no_client, no_client)]" boot_RosStation]
    by (simp add: no_client_def sending_def)
qed

text \<open>
  C2 as claimed fails. After boot a ROS client connects and sends \<open>a\<close>; in the second
  iteration no client is connected, and the flag is still set after it. In the third
  iteration a client connects and sends \<open>b\<close>: the iteration flushes nothing and logs no
  new client, and the whole run holds the first-connection events once.
\<close>

theorem alreadyConnected_reset_counterexample:
  "alreadyConnected
     (run_RosStation [(sending ''a'', no_client), (no_client, no_client)] boot_RosStation)
   \<and> \<not> connected no_client
   \<and> connected (sending ''b'')
   \<and> emitted (loop_RosStation (sending ''b'') no_client)
        (run_RosStation [(sending ''a'', no_client), (no_client, no_client)] boot_RosStation) =
       [SerialPrintln ''ROS: Retract Plate'',
        DigitalWrite PLATE_DIRECTION_PIN HIGH, DigitalWrite PLATE_ENABLE_PIN LOW,
        ServerWrite Ros (CHR ''B''), DigitalWrite WPT_RELAY_PIN LOW]
   \<and> connection_events
        (trace (run_RosStation
           [(sending ''a'', no_client), (no_client, no_client), (sending ''b'', no_client)]
           boot_RosStation)) =
       [ClientFlush Ros, ClientFlush Web, SerialPrintln ''New client connected'']"
  by (simp add: loop_defs relay_defs boot_defs act_defs call_defs fixture_defs pin_defs
      emitted_def connection_events_def first_connection_events_def)

lemma trace_switch_ros: "trace (switch_ros a s) = trace s @ emitted (switch_ros a) s"
  by (simp add: switch_ros_def seq_defs act_defs call_defs emitted_def)

lemma trace_switch_web: "trace (switch_web b s) = trace s @ emitted (switch_web b) s"
  by (simp add: switch_web_def seq_defs act_defs call_defs emitted_def)

lemma trace_control_wireless_power:
  "trace (control_wireless_power s) = trace s @ emitted control_wireless_power s"
  by (simp add: relay_defs call_defs emitted_def)

lemma switch_web_last_write:
  "last_write p (emitted (switch_web b) s) = Some v \<Longrightarrow>
     pins (switch_web b s) p = v \<and> p \<noteq> WPT_RELAY_PIN"
  by (simp add: switch_web_def seq_defs act_defs call_defs emitted_def pin_defs
      split: if_splits)

lemma control_wireless_power_pins:
  "p \<noteq> WPT_RELAY_PIN \<Longrightarrow> pins (control_wireless_power s) p = pins s p"
  by (simp add: relay_defs call_defs)

text \<open>
  C10. In an iteration where both clients have a byte pending, \<^verbatim>\<open>loop()\<close> runs the ROS
  switch, then the web switch, then the relay control: the trace holds the events of the
  ROS command before those of the web command. Whatever pin the web command writes holds,
  when the iteration ends, the level the web command wrote last, whatever the ROS command
  did to it.
\<close>

theorem ros_before_web:
  assumes "connected r \<or> connected w" and "pending r = a # as" and "pending w = b # bs"
  shows "loop_RosStation r w s =
           control_wireless_power (switch_web b (switch_ros a (new_connection s)))
       \<and> trace (loop_RosStation r w s) =
           trace (new_connection s)
           @ emitted (switch_ros a) (new_connection s)
           @ emitted (switch_web b) (switch_ros a (new_connection s))
           @ emitted control_wireless_power (switch_web b (switch_ros a (new_connection s)))
       \<and> (last_write p (emitted (switch_web b) (switch_ros a (new_connection s))) = Some v \<longrightarrow>
            pins (loop_RosStation r w s) p = v)"
proof -
  have comp: "loop_RosStation r w s =
      control_wireless_power (switch_web b (switch_ros a (new_connection s)))"
    using assms by (simp add: loop_RosStation_def)
  have tr: "trace (control_wireless_power (switch_web b (switch_ros a (new_connection s)))) =
      trace (new_connection s)
      @ emitted (switch_ros a) (new_connection s)
      @ emitted (switch_web b) (switch_ros a (new_connection s))
      @ emitted control_wireless_power (switch_web b (switch_ros a (new_connection s)))"
    using trace_control_wireless_power [of "switch_web b (switch_ros a (new_connection s))"]
      trace_switch_web [of b "switch_ros a (new_connection s)"]
      trace_switch_ros [of a "new_connection s"]
    by simp
  have lw: "pins (control_wireless_power (switch_web b (switch_ros a (new_connection s)))) p = v"
    if "last_write p (emitted (switch_web b) (switch_ros a (new_connection s))) = Some v"
    using switch_web_last_write [OF that] control_wireless_power_pins by simp
  show ?thesis
    using comp tr lw by simp
qed

theorem ros_before_web_witness:
  "(connected (sending ''a'') \<or> connected (sending ''D''))
   \<and> pending (sending ''a'') = CHR ''a'' # [] \<and> pending (sending ''D'') = CHR ''D'' # []
   \<and> pins (switch_ros (CHR ''a'') (new_connection boot_RosStation)) PLATE_DIRECTION_PIN = LOW
   \<and> last_write PLATE_DIRECTION_PIN
        (emitted (switch_web (CHR ''D'')) (switch_ros (CHR ''a'') (new_connection boot_RosStation)))
       = Some HIGH
   \<and> pins (loop_RosStation (sending ''a'') (sending ''D'') boot_RosStation) PLATE_DIRECTION_PIN
       = HIGH"
proof -
  have c: "connected (sending ''a'') \<or> connected (sending ''D'')"
    and pa: "pending (sending ''a'') = CHR ''a'' # []"
    and pd: "pending (sending ''D'') = CHR ''D'' # []"
    by (simp_all add: sending_def)
  have ros: "pins (switch_ros (CHR ''a'') (new_connection boot_RosStation)) PLATE_DIRECTION_PIN = LOW"
    by (simp add: switch_ros_def act_defs call_defs pin_defs)
  have web: "last_write PLATE_DIRECTION_PIN
      (emitted (switch_web (CHR ''D'')) (switch_ros (CHR ''a'') (new_connection boot_RosStation)))
      = Some HIGH"
    by (simp add: switch_web_def act_defs call_defs pin_defs emitted_def)
  have fin: "pins (loop_RosStation (sending ''a'') (sending ''D'') boot_RosStation)
      PLATE_DIRECTION_PIN = HIGH"
    using web
      ros_before_web [OF c pa pd, where p = PLATE_DIRECTION_PIN and s = boot_RosStation
        and v = HIGH]
    by blast
  show ?thesis
    using c pa pd ros web fin by blast
qed

end
